theory Spec2Isabelle
  imports Complex_Main
begin

section \<open>The band definitions of \<^verbatim>\<open>motivations/plot_IfYouFilterTheyWillCome.py\<close>\<close>

text \<open>
  The script is a straight-line program: it builds a \<^verbatim>\<open>Bands\<close> object from a dict
  literal (lines 48-53), simulates signals, filters them and plots them. Its own data are
  the dict literal, the constants \<^verbatim>\<open>s_rate\<close> and \<^verbatim>\<open>n_seconds\<close>, and the
  order of its statements; everything else is a call into \<^verbatim>\<open>fooof.bands\<close>,
  \<^verbatim>\<open>neurodsp\<close>, \<^verbatim>\<open>numpy\<close> or \<^verbatim>\<open>matplotlib\<close>.
\<close>

subsection \<open>Python dictionaries\<close>

text \<open>
  A Python \<^verbatim>\<open>dict\<close> keeps its keys in insertion order, so it is an association list
  with distinct keys. \<^verbatim>\<open>d[k] = v\<close> replaces the value of a key that is present, where
  it stands, and appends a new key at the end. A dict display
  \<^verbatim>\<open>{k1 : v1, k2 : v2, ...}\<close> stores its items from left to right.
\<close>

fun dict_setitem :: "'k \<Rightarrow> 'v \<Rightarrow> ('k \<times> 'v) list \<Rightarrow> ('k \<times> 'v) list" where
  "dict_setitem k v [] = [(k, v)]"
| "dict_setitem k v ((k', v') # d) =
     (if k' = k then (k, v) # d else (k', v') # dict_setitem k v d)"

definition dict_display :: "('k \<times> 'v) list \<Rightarrow> ('k \<times> 'v) list" where
  "dict_display items = foldl (\<lambda>d (k, v). dict_setitem k v d) [] items"

subsection \<open>The configuration table (lines 48-53)\<close>

text \<open>
  The items of the dict display passed to \<^verbatim>\<open>Bands\<close>, in source order. A range is a
  Python list of two integers, \<^verbatim>\<open>[low, high]\<close>.
\<close>

definition band_definitions :: "(string \<times> int list) list" where
  "band_definitions =
     [(''delta'', [2, 4]),
      (''theta'', [4, 8]),
      (''alpha'', [8, 13]),
      (''beta'', [13, 30]),
      (''low_gamma'', [30, 50]),
      (''high_gamma'', [50, 150])]"

subsection \<open>The \<^verbatim>\<open>Bands\<close> container\<close>

text \<open>
  Modelled from the spec: the class \<^verbatim>\<open>fooof.bands.Bands\<close> is imported by the
  script (line 37) and its code is not among the sources. The spec (4.1) says it
  "accepts a configuration table (name \<rightarrow> [low, high]) and exposes iteration yielding
  (name, range) pairs in definition order, plus attribute-style lookup by name", and (2)
  that it is "read-only, constructed once, iterated in insertion order". The object is
  the table it was given; a lookup of a name that was never defined has no result
  (\<open>None\<close>: the exception the lookup raises).
\<close>

datatype Bands = Bands "(string \<times> int list) list"

fun Bands_iter :: "Bands \<Rightarrow> (string \<times> int list) list" where
  "Bands_iter (Bands d) = d"

fun Bands_len :: "Bands \<Rightarrow> nat" where
  "Bands_len (Bands d) = length d"

fun Bands_getattr :: "Bands \<Rightarrow> string \<Rightarrow> int list option" where
  "Bands_getattr (Bands d) label = map_of d label"

text \<open>The value the script binds to \<^verbatim>\<open>bands\<close> at lines 48-53.\<close>

definition bands_registry :: Bands where
  "bands_registry = Bands (dict_display band_definitions)"

subsection \<open>Python's \<^verbatim>\<open>str\<close> on integers and lists\<close>

text \<open>
  The loop builds each panel's title as \<^verbatim>\<open>label + ' ' + str(f_range)\<close> (line 105):
  \<^verbatim>\<open>str([2, 4])\<close> is \<^verbatim>\<open>'[2, 4]'\<close>.
\<close>

fun str_nat :: "nat \<Rightarrow> string" where
  "str_nat n =
     (if n < 10 then [''0123456789'' ! n]
      else str_nat (n div 10) @ [''0123456789'' ! (n mod 10)])"

declare str_nat.simps [simp del]

definition str_int :: "int \<Rightarrow> string" where
  "str_int i = (if i < 0 then CHR ''-'' # str_nat (nat (- i)) else str_nat (nat i))"

fun join :: "string \<Rightarrow> string list \<Rightarrow> string" where
  "join sep [] = []"
| "join sep [x] = x"
| "join sep (x # y # ys) = x @ sep @ join sep (y # ys)"

definition str_list :: "int list \<Rightarrow> string" where
  "str_list xs = ''['' @ join '', '' (map str_int xs) @ '']''"

section \<open>The script as a state transformer\<close>

subsection \<open>The external collaborators\<close>

text \<open>
  The functions the script imports from \<^verbatim>\<open>neurodsp\<close>, \<^verbatim>\<open>numpy\<close> and
  \<^verbatim>\<open>matplotlib\<close> are not part of this repository. The script is modelled for
  arbitrary collaborators: a record of functions that it is run with. Arrays of floats are
  lists of reals; an axis handle is a value of type \<open>'ax\<close>; the state of numpy's
  process-wide random generator is a value of type \<open>'rng\<close>, which
  \<^verbatim>\<open>set_random_seed\<close> sets and \<^verbatim>\<open>sim_powerlaw\<close> reads and advances.
  \<^verbatim>\<open>plt.subplots\<close> returns a figure and the axes; the script discards the figure, and
  \<open>subplots\<close> is the axes alone. Nothing is assumed about the values the collaborators
  return. They are functions of the values they are given: a collaborator that raised an
  exception, or that wrote into an array or a list it was passed, is outside this model.
\<close>

record ('ax, 'rng) collaborators =
  set_random_seed :: "int \<Rightarrow> 'rng"
  create_times :: "real \<Rightarrow> int \<Rightarrow> real list"
  sim_powerlaw ::
    "real \<Rightarrow> int \<Rightarrow> real \<Rightarrow> (int option \<times> int option) option \<Rightarrow> 'rng \<Rightarrow> real list \<times> 'rng"
  filter_signal :: "real list \<Rightarrow> int \<Rightarrow> string \<Rightarrow> int list \<Rightarrow> real list"
  subplots :: "nat \<Rightarrow> nat \<Rightarrow> 'ax list"
  hstack :: "real list list \<Rightarrow> real list"

text \<open>
  Every call the script makes to a collaborator is recorded, with its arguments, in the
  order the calls are made. \<^verbatim>\<open>ax = None\<close> in \<open>Plot_time_series\<close> is the call
  without an \<^verbatim>\<open>ax\<close> argument; \<open>Plt_xlim\<close> and \<open>Plt_ylim\<close> are
  \<^verbatim>\<open>plt.xlim\<close> and \<^verbatim>\<open>plt.ylim\<close>.
\<close>

datatype 'ax call =
    Set_random_seed int
  | Create_times real int
  | Sim_powerlaw real int real "(int option \<times> int option) option"
  | Plot_time_series "real list" "real list" "string option" "'ax option"
  | Subplots nat nat "int \<times> int"
  | Filter_signal "real list" int string "int list"
  | Set_xlim 'ax int int
  | Set_ylim 'ax int int
  | Set_xlabel 'ax string
  | Hstack "real list list"
  | Plt_xlim int int
  | Plt_ylim int int

subsection \<open>The script's variables\<close>

text \<open>
  One field for each module-level variable the script assigns (\<^verbatim>\<open>times\<close> is
  \<open>times_arr\<close> here), the generator state and the record of calls. The loop variables
  \<^verbatim>\<open>ax\<close>, \<^verbatim>\<open>label\<close> and \<^verbatim>\<open>f_range\<close> are read only inside the
  loop body and are bound there.
\<close>

record ('ax, 'rng) state =
  bands :: Bands
  s_rate :: int
  n_seconds :: int
  times_arr :: "real list"
  sig :: "real list"
  axes :: "'ax list"
  band_sig :: "real list"
  sig_comp1 :: "real list"
  sig_comp2 :: "real list"
  sig_delta_ap :: "real list"
  rng :: 'rng
  trace :: "'ax call list"

datatype error = Band_not_defined string

type_synonym ('ax, 'rng) stmt =
  "('ax, 'rng) collaborators \<Rightarrow> ('ax, 'rng) state \<Rightarrow> error + ('ax, 'rng) state"

definition record_call :: "'ax call \<Rightarrow> ('ax, 'rng) state \<Rightarrow> ('ax, 'rng) state" where
  "record_call c s = s\<lparr>trace := trace s @ [c]\<rparr>"

subsection \<open>The statements, by source line\<close>

definition line_48 :: "('ax, 'rng) stmt" where
  "line_48 env s = Inr (s\<lparr>bands := bands_registry\<rparr>)"

definition line_66 :: "('ax, 'rng) stmt" where
  "line_66 env s = Inr (record_call (Set_random_seed 21) (s\<lparr>rng := set_random_seed env 21\<rparr>))"

definition line_71 :: "('ax, 'rng) stmt" where
  "line_71 env s = Inr (s\<lparr>s_rate := 1000\<rparr>)"

definition line_72 :: "('ax, 'rng) stmt" where
  "line_72 env s = Inr (s\<lparr>n_seconds := 4\<rparr>)"

definition line_73 :: "('ax, 'rng) stmt" where
  "line_73 env s =
     Inr (record_call (Create_times (of_int (n_seconds s)) (s_rate s))
           (s\<lparr>times_arr := create_times env (of_int (n_seconds s)) (s_rate s)\<rparr>))"

text \<open>
  \<^verbatim>\<open>sim_powerlaw(n_seconds, s_rate, exponent, f_range)\<close>: the samples, and the
  generator state after drawing them. \<open>f_range\<close> is \<open>None\<close> where the call passes none
  (line 78) and \<^verbatim>\<open>(None, 150)\<close> at lines 143 and 144, where \<^verbatim>\<open>n_seconds/2\<close> is
  Python's true division.
\<close>

definition simulate ::
  "('ax, 'rng) collaborators \<Rightarrow> real \<Rightarrow> real \<Rightarrow> (int option \<times> int option) option \<Rightarrow>
   ('ax, 'rng) state \<Rightarrow> real list \<times> ('ax, 'rng) state" where
  "simulate env secs exponent f_range s =
     (case sim_powerlaw env secs (s_rate s) exponent f_range (rng s) of
        (x, g) \<Rightarrow> (x, record_call (Sim_powerlaw secs (s_rate s) exponent f_range) (s\<lparr>rng := g\<rparr>)))"

definition line_78 :: "('ax, 'rng) stmt" where
  "line_78 env s =
     (case simulate env (of_int (n_seconds s)) (- 1) None s of
        (x, s') \<Rightarrow> Inr (s'\<lparr>sig := x\<rparr>))"

definition line_83 :: "('ax, 'rng) stmt" where
  "line_83 env s = Inr (record_call (Plot_time_series (times_arr s) (sig s) None None) s)"

definition line_98 :: "('ax, 'rng) stmt" where
  "line_98 env s =
     Inr (record_call (Subplots (Bands_len (bands s)) 1 (12, 15))
           (s\<lparr>axes := subplots env (Bands_len (bands s)) 1\<rparr>))"

text \<open>
  Lines 99-106. \<^verbatim>\<open>zip(axes, bands)\<close> pairs the axes with the items that iterating
  \<^verbatim>\<open>bands\<close> yields and stops at the shorter of the two; the body runs once for
  each pair, in order.
\<close>

definition loop_iterations :: "('ax, 'rng) state \<Rightarrow> ('ax \<times> string \<times> int list) list" where
  "loop_iterations s = zip (axes s) (Bands_iter (bands s))"

definition loop_body ::
  "('ax, 'rng) collaborators \<Rightarrow> ('ax, 'rng) state \<Rightarrow> 'ax \<times> string \<times> int list \<Rightarrow>
   ('ax, 'rng) state" where
  "loop_body env s it =
     (case it of (ax, label, f_range) \<Rightarrow>
        (let filtered = filter_signal env (sig s) (s_rate s) ''bandpass'' f_range in
         s\<lparr>band_sig := filtered,
           trace := trace s @
             [Filter_signal (sig s) (s_rate s) ''bandpass'' f_range,
              Plot_time_series (times_arr s) filtered
                (Some (label @ '' '' @ str_list f_range)) (Some ax),
              Set_xlim ax 0 (n_seconds s),
              Set_ylim ax (- 1) 1,
              Set_xlabel ax []]\<rparr>))"

definition lines_99_106 :: "('ax, 'rng) stmt" where
  "lines_99_106 env s = Inr (foldl (loop_body env) s (loop_iterations s))"

definition line_143 :: "('ax, 'rng) stmt" where
  "line_143 env s =
     (case simulate env (of_int (n_seconds s) / 2) (- 1.5) (Some (None, Some 150)) s of
        (x, s') \<Rightarrow> Inr (s'\<lparr>sig_comp1 := x\<rparr>))"

definition line_144 :: "('ax, 'rng) stmt" where
  "line_144 env s =
     (case simulate env (of_int (n_seconds s) / 2) (- 1) (Some (None, Some 150)) s of
        (x, s') \<Rightarrow> Inr (s'\<lparr>sig_comp2 := x\<rparr>))"

definition line_147 :: "('ax, 'rng) stmt" where
  "line_147 env s =
     Inr (record_call (Hstack [sig_comp1 s, sig_comp2 s])
           (s\<lparr>sig_delta_ap := hstack env [sig_comp1 s, sig_comp2 s]\<rparr>))"

definition line_152 :: "('ax, 'rng) stmt" where
  "line_152 env s =
     Inr (record_call (Plot_time_series (times_arr s) (sig_delta_ap s) None None) s)"

text \<open>
  Lines 163 and 181: \<^verbatim>\<open>filter_signal(sig_delta_ap, s_rate, 'bandpass', bands.<label>)\<close>.
  The attribute lookup comes first; when it fails the script stops there.
\<close>

definition filter_to_band :: "string \<Rightarrow> ('ax, 'rng) stmt" where
  "filter_to_band label env s =
     (case Bands_getattr (bands s) label of
        None \<Rightarrow> Inl (Band_not_defined label)
      | Some f_range \<Rightarrow>
          Inr (record_call (Filter_signal (sig_delta_ap s) (s_rate s) ''bandpass'' f_range)
                (s\<lparr>band_sig :=
                     filter_signal env (sig_delta_ap s) (s_rate s) ''bandpass'' f_range\<rparr>)))"

definition line_163 :: "('ax, 'rng) stmt" where
  "line_163 = filter_to_band ''beta''"

text \<open>Lines 166 and 184 are the same statement, and so are lines 167 and 185.\<close>

definition line_166 :: "('ax, 'rng) stmt" where
  "line_166 env s =
     Inr (record_call (Plot_time_series (times_arr s) (band_sig s) None None) s)"

definition line_167 :: "('ax, 'rng) stmt" where
  "line_167 env s =
     Inr (record_call (Plt_ylim (- 1) 1) (record_call (Plt_xlim 0 (n_seconds s)) s))"

definition line_181 :: "('ax, 'rng) stmt" where
  "line_181 = filter_to_band ''high_gamma''"

subsection \<open>The whole script\<close>

definition script :: "('ax, 'rng) stmt list" where
  "script =
     [line_48, line_66, line_71, line_72, line_73, line_78, line_83, line_98, lines_99_106,
      line_143, line_144, line_147, line_152, line_163, line_166, line_167,
      line_181, line_166, line_167]"

text \<open>Statements run in order; the first failure ends the run.\<close>

fun run ::
  "('ax, 'rng) collaborators \<Rightarrow> ('ax, 'rng) stmt list \<Rightarrow> ('ax, 'rng) state \<Rightarrow>
   error + ('ax, 'rng) state" where
  "run env [] s = Inr s"
| "run env (c # cs) s = (case c env s of Inl e \<Rightarrow> Inl e | Inr s' \<Rightarrow> run env cs s')"

subsection \<open>Notions used to state the properties\<close>

text \<open>The Nyquist frequency of a signal sampled at \<open>fs\<close> Hz is half the sample rate.\<close>

definition nyquist :: "int \<Rightarrow> real" where
  "nyquist fs = real_of_int fs / 2"

text \<open>A range is defined when some band of the registry has it.\<close>

definition defined_range :: "int list \<Rightarrow> bool" where
  "defined_range r \<longleftrightarrow> (\<exists>label. (label, r) \<in> set (Bands_iter bands_registry))"

text \<open>
  The invariant of the script from line 72 on: \<^verbatim>\<open>bands\<close> and \<^verbatim>\<open>s_rate\<close>
  hold the values they were given, and every filter call made so far is a band-pass at
  1000 Hz over a defined range.
\<close>

definition filter_calls_ok :: "'ax call list \<Rightarrow> bool" where
  "filter_calls_ok tr \<longleftrightarrow>
     (\<forall>x fs p r. Filter_signal x fs p r \<in> set tr \<longrightarrow>
        fs = 1000 \<and> p = ''bandpass'' \<and> defined_range r)"

definition script_inv :: "('ax, 'rng) state \<Rightarrow> bool" where
  "script_inv s \<longleftrightarrow> bands s = bands_registry \<and> s_rate s = 1000 \<and> filter_calls_ok (trace s)"

subsection \<open>A concrete run\<close>

text \<open>
  Collaborators and a starting state on which the script can be evaluated: axes are
  numbered from 0, the generator state is an integer, the simulator returns two samples
  and the filter halves each sample. No variable is bound yet in the starting state and no
  call has been made.
\<close>

definition demo_collaborators :: "(nat, int) collaborators" where
  "demo_collaborators =
     \<lparr>set_random_seed = (\<lambda>seed. seed),
      create_times = (\<lambda>secs fs. [0, 1]),
      sim_powerlaw = (\<lambda>secs fs e f_range g. ([real_of_int g, e], g + 1)),
      filter_signal = (\<lambda>x fs p r. map (\<lambda>v. v / 2) x),
      subplots = (\<lambda>rows cols. [0..<rows * cols]),
      hstack = concat\<rparr>"

definition demo_start :: "(nat, int) state" where
  "demo_start =
     \<lparr>bands = Bands [], s_rate = 0, n_seconds = 0, times_arr = [], sig = [], axes = [],
      band_sig = [], sig_comp1 = [], sig_comp2 = [], sig_delta_ap = [], rng = 0, trace = []\<rparr>"

section \<open>Properties of the band registry\<close>

lemma dict_display_band_definitions: "dict_display band_definitions = band_definitions"
  by (simp add: dict_display_def band_definitions_def)

lemma Bands_iter_registry: "Bands_iter bands_registry = band_definitions"
  by (simp add: bands_registry_def dict_display_band_definitions)

lemma Bands_len_registry: "Bands_len bands_registry = 6"
  unfolding bands_registry_def dict_display_band_definitions
  by (simp add: band_definitions_def)

lemma getattr_beta: "Bands_getattr bands_registry ''beta'' = Some [13, 30]"
  unfolding bands_registry_def dict_display_band_definitions
  by (simp add: band_definitions_def)

lemma getattr_high_gamma: "Bands_getattr bands_registry ''high_gamma'' = Some [50, 150]"
  unfolding bands_registry_def dict_display_band_definitions
  by (simp add: band_definitions_def)

text \<open>
  Claim C9. Attribute-style lookup on the band registry by band name returns exactly the
  range defined for that name in the configuration table: every item
  \<open>(label, range)\<close> of the table is found under its label, \<^verbatim>\<open>bands.beta\<close> is
  \<open>[13, 30]\<close> and \<^verbatim>\<open>bands.high_gamma\<close> is \<open>[50, 150]\<close>.
\<close>

theorem getattr_returns_defined_range:
  "(\<forall>label r. (label, r) \<in> set band_definitions \<longrightarrow> Bands_getattr bands_registry label = Some r)
   \<and> Bands_getattr bands_registry ''beta'' = Some [13, 30]
   \<and> Bands_getattr bands_registry ''high_gamma'' = Some [50, 150]"
  unfolding bands_registry_def dict_display_band_definitions
  by (auto simp add: band_definitions_def)

theorem getattr_returns_defined_range_witness:
  "(''alpha'', [8, 13]) \<in> set band_definitions
   \<and> Bands_getattr bands_registry ''alpha'' = Some [8, 13]"
proof -
  have member: "(''alpha'', [8, 13]) \<in> set band_definitions"
    by (simp add: band_definitions_def)
  from getattr_returns_defined_range
  have "(''alpha'', [8, 13]) \<in> set band_definitions
          \<longrightarrow> Bands_getattr bands_registry ''alpha'' = Some [8, 13]"
    by blast
  with member show ?thesis by simp
qed

section \<open>Properties of the script\<close>

subsection \<open>The registry is never changed\<close>

lemma loop_body_frame:
  "bands (loop_body env s it) = bands s \<and> s_rate (loop_body env s it) = s_rate s
   \<and> sig (loop_body env s it) = sig s \<and> n_seconds (loop_body env s it) = n_seconds s
   \<and> times_arr (loop_body env s it) = times_arr s \<and> axes (loop_body env s it) = axes s"
  by (simp add: loop_body_def Let_def split: prod.splits)

lemma foldl_loop_body_bands: "bands (foldl (loop_body env) s its) = bands s"
  by (induction its arbitrary: s) (simp_all add: loop_body_frame)

lemma run_invariant:
  assumes "\<And>c s. c \<in> set cs \<Longrightarrow> P s \<Longrightarrow> \<exists>s'. c env s = Inr s' \<and> P s'"
    and "P s"
  shows "\<exists>s'. run env cs s = Inr s' \<and> P s'"
  using assms
proof (induction cs arbitrary: s)
  case Nil
  then show ?case by simp
next
  case (Cons c cs)
  from Cons.prems obtain s1 where s1: "c env s = Inr s1" "P s1"
    by (meson list.set_intros(1))
  have "\<exists>s'. run env cs s1 = Inr s' \<and> P s'"
    using Cons.prems(1) s1(2) by (intro Cons.IH) auto
  with s1 show ?case by simp
qed

lemmas line_defs =
  line_48_def line_66_def line_71_def line_72_def line_73_def line_78_def line_83_def
  line_98_def lines_99_106_def line_143_def line_144_def line_147_def line_152_def
  line_163_def line_166_def line_167_def line_181_def filter_to_band_def simulate_def
  record_call_def

lemma stmt_keeps_bands:
  assumes "c \<in> set (tl script)" and "bands s = bands_registry"
  shows "\<exists>s'. c env s = Inr s' \<and> bands s' = bands_registry"
proof -
  from assms(1) have "c \<in> {line_66, line_71, line_72, line_73, line_78, line_83, line_98,
      lines_99_106, line_143, line_144, line_147, line_152, line_163, line_166, line_167,
      line_181}"
    by (auto simp add: script_def)
  with assms(2) show ?thesis
    by (auto simp add: line_defs foldl_loop_body_bands getattr_beta getattr_high_gamma
        split: prod.splits)
qed

lemma bands_ranges_valid:
  "\<forall>(label, r) \<in> set (Bands_iter bands_registry).
      length r = 2 \<and> 0 < r ! 0 \<and> 0 < r ! 1 \<and> r ! 0 < r ! 1"
  unfolding Bands_iter_registry by (simp add: band_definitions_def)

lemma run_prefix_keeps_bands:
  fixes env :: "('ax, 'rng) collaborators"
  assumes "n \<in> {1..length (script :: ('ax, 'rng) stmt list)}"
  shows "\<exists>s. run env (take n script) s0 = Inr s \<and> bands s = bands_registry"
proof -
  from assms obtain m where m: "n = Suc m" by (cases n) auto
  let ?rest = "take m (tl (script :: ('ax, 'rng) stmt list))"
  have split: "take n (script :: ('ax, 'rng) stmt list) = line_48 # ?rest"
    by (simp add: m script_def)
  have "\<exists>s. run env ?rest (s0\<lparr>bands := bands_registry\<rparr>) = Inr s \<and> bands s = bands_registry"
  proof (rule run_invariant)
    fix c :: "('ax, 'rng) stmt" and s :: "('ax, 'rng) state"
    assume c: "c \<in> set ?rest" and s: "bands s = bands_registry"
    from c have "c \<in> set (tl (script :: ('ax, 'rng) stmt list))" by (rule in_set_takeD)
    then show "\<exists>s'. c env s = Inr s' \<and> bands s' = bands_registry"
      using s by (rule stmt_keeps_bands)
  qed simp
  then show ?thesis
    by (simp add: split line_48_def)
qed

text \<open>
  Claim C6. Every band in the registry has a range \<open>[low, high]\<close> with \<open>low < high\<close> and
  both bounds strictly positive, and this holds for the whole run: after each statement of
  the script, from the one that defines \<^verbatim>\<open>bands\<close> to the last, the script has not
  failed and \<^verbatim>\<open>bands\<close> is still the registry built at lines 48-53; inside the loop, no
  iteration of the body changes it either. This holds with any collaborators and from any
  starting state.
\<close>

theorem bands_valid_and_never_changed:
  fixes env :: "('ax, 'rng) collaborators"
  shows
  "(\<forall>(label, r) \<in> set (Bands_iter bands_registry).
       length r = 2 \<and> 0 < r ! 0 \<and> 0 < r ! 1 \<and> r ! 0 < r ! 1)
   \<and> (\<forall>n \<in> {1..length (script :: ('ax, 'rng) stmt list)}.
         \<exists>s. run env (take n script) s0 = Inr s \<and> bands s = bands_registry)
   \<and> (\<forall>s it. bands (loop_body env s it) = bands s)"
  using bands_ranges_valid run_prefix_keeps_bands [of _ env s0] loop_body_frame [of env]
  by blast

theorem bands_valid_and_never_changed_witness:
  "length (script :: (nat, int) stmt list) \<in> {1..length (script :: (nat, int) stmt list)}
   \<and> (\<exists>s. run demo_collaborators script demo_start = Inr s \<and> bands s = bands_registry)"
proof -
  have n: "length (script :: (nat, int) stmt list) \<in> {1..length (script :: (nat, int) stmt list)}"
    by (simp add: script_def)
  from bands_valid_and_never_changed [of demo_collaborators demo_start]
  have "\<forall>n \<in> {1..length (script :: (nat, int) stmt list)}.
         \<exists>s. run demo_collaborators (take n script) demo_start = Inr s \<and> bands s = bands_registry"
    by blast
  from bspec [OF this n] n show ?thesis by simp
qed

subsection \<open>The ranges passed to the filter\<close>

lemma loop_body_inv:
  assumes "script_inv s" and "defined_range (snd (snd it))"
  shows "script_inv (loop_body env s it)"
  using assms
  by (cases it) (auto simp add: script_inv_def filter_calls_ok_def loop_body_def Let_def)

lemma foldl_loop_body_inv:
  assumes "script_inv s" and "\<forall>it \<in> set its. defined_range (snd (snd it))"
  shows "script_inv (foldl (loop_body env) s its)"
  using assms
  by (induction its arbitrary: s) (simp_all add: loop_body_inv)

lemma loop_iterations_ranges:
  assumes "it \<in> set (loop_iterations s)" and "bands s = bands_registry"
  shows "defined_range (snd (snd it))"
proof -
  obtain ax label r where it: "it = (ax, label, r)" by (cases it)
  with assms have "(label, r) \<in> set (Bands_iter bands_registry)"
    by (auto simp add: loop_iterations_def dest: set_zip_rightD)
  with it show ?thesis by (auto simp add: defined_range_def)
qed

lemma getattr_defined_range:
  assumes "Bands_getattr bands_registry label = Some r"
  shows "defined_range r"
  using assms unfolding defined_range_def bands_registry_def
  by (auto dest: map_of_SomeD)

lemma filter_to_band_inv:
  assumes "script_inv s" and "Bands_getattr bands_registry label = Some r"
  shows "\<exists>s'. filter_to_band label env s = Inr s' \<and> script_inv s'"
  using assms getattr_defined_range [OF assms(2)]
  by (auto simp add: filter_to_band_def script_inv_def filter_calls_ok_def record_call_def)

lemma stmt_keeps_inv:
  assumes "c \<in> set (drop 3 script)" and "script_inv s"
  shows "\<exists>s'. c env s = Inr s' \<and> script_inv s'"
proof -
  from assms(1) have "c \<in> {line_72, line_73, line_78, line_83, line_98, line_143, line_144,
      line_147, line_152, line_166, line_167} \<or> c = lines_99_106 \<or> c = line_163 \<or> c = line_181"
    by (auto simp add: script_def)
  then consider
      (plain) "c \<in> {line_72, line_73, line_78, line_83, line_98, line_143, line_144,
        line_147, line_152, line_166, line_167}"
    | (loop) "c = lines_99_106" | (beta) "c = line_163" | (high_gamma) "c = line_181"
    by blast
  then show ?thesis
  proof cases
    case plain
    with assms(2) show ?thesis
      by (auto simp add: line_defs script_inv_def filter_calls_ok_def split: prod.splits)
  next
    case loop
    have "script_inv (foldl (loop_body env) s (loop_iterations s))"
      using assms(2) loop_iterations_ranges [of _ s]
      by (intro foldl_loop_body_inv) (auto simp add: script_inv_def)
    with loop show ?thesis by (simp add: lines_99_106_def)
  next
    case beta
    with assms(2) show ?thesis
      by (simp add: line_163_def filter_to_band_inv [OF _ getattr_beta])
  next
    case high_gamma
    with assms(2) show ?thesis
      by (simp add: line_181_def filter_to_band_inv [OF _ getattr_high_gamma])
  qed
qed

lemma run_script_inv:
  fixes env :: "('ax, 'rng) collaborators"
  assumes "trace s0 = []"
  shows "\<exists>s. run env script s0 = Inr s \<and> script_inv s"
proof -
  let ?s3 = "s0\<lparr>bands := bands_registry, rng := set_random_seed env 21, 
     trace := [Set_random_seed 21], s_rate := 1000\<rparr>"
  have start: "run env script s0 = run env (drop 3 script) ?s3"
    using assms by (simp add: script_def line_48_def line_66_def line_71_def record_call_def)
  have "script_inv ?s3"
    by (simp add: script_inv_def filter_calls_ok_def)
  then have "\<exists>s. run env (drop 3 script) ?s3 = Inr s \<and> script_inv s"
    by (intro run_invariant stmt_keeps_inv)
  with start show ?thesis by simp
qed

lemma run_append:
  "run env (xs @ ys) s = (case run env xs s of Inl e \<Rightarrow> Inl e | Inr s' \<Rightarrow> run env ys s')"
  by (induction xs arbitrary: s) (simp_all split: sum.splits)

lemma run_prefix_inv:
  fixes env :: "('ax, 'rng) collaborators"
  assumes "trace s0 = []"
  shows "\<exists>s. run env (take (3 + n) script) s0 = Inr s \<and> script_inv s"
proof -
  let ?s3 = "s0\<lparr>bands := bands_registry, rng := set_random_seed env 21,
     trace := [Set_random_seed 21], s_rate := 1000\<rparr>"
  let ?rest = "take n (drop 3 (script :: ('ax, 'rng) stmt list))"
  have "take (3 + n) (script :: ('ax, 'rng) stmt list) = take 3 script @ ?rest"
    by (simp add: take_add)
  then have start: "run env (take (3 + n) script) s0 = run env ?rest ?s3"
    using assms
    by (simp add: run_append) (simp add: script_def line_48_def line_66_def line_71_def record_call_def)
  have "script_inv ?s3"
    by (simp add: script_inv_def filter_calls_ok_def)
  then have "\<exists>s. run env ?rest ?s3 = Inr s \<and> script_inv s"
  proof (rule run_invariant [rotated])
    fix c :: "('ax, 'rng) stmt" and s :: "('ax, 'rng) state"
    assume "c \<in> set ?rest" and inv: "script_inv s"
    then have "c \<in> set (drop 3 script)" by (auto dest: in_set_takeD)
    then show "\<exists>s'. c env s = Inr s' \<and> script_inv s'"
      using inv by (rule stmt_keeps_inv)
  qed
  with start show ?thesis by simp
qed

lemma run_script_filters_high_gamma:
  fixes env :: "('ax, 'rng) collaborators"
  assumes "trace s0 = []"
  shows "\<exists>s. run env script s0 = Inr s \<and> script_inv s
           \<and> (\<exists>x. Filter_signal x 1000 ''bandpass'' [50, 150] \<in> set (trace s))"
proof -
  from run_prefix_inv [OF assms, of env 13]
  obtain s16 where s16: "run env (take 16 script) s0 = Inr s16" "script_inv s16"
    by auto
  have "(script :: ('ax, 'rng) stmt list) = take 16 script @ [line_181, line_166, line_167]"
    by (simp add: script_def)
  then have "run env script s0 = run env [line_181, line_166, line_167] s16"
    using s16(1) by (metis run_append sum.case(2))
  moreover from s16(2) have "bands s16 = bands_registry" "s_rate s16 = 1000"
    by (simp_all add: script_inv_def)
  ultimately have "\<exists>s. run env script s0 = Inr s
      \<and> Filter_signal (sig_delta_ap s16) 1000 ''bandpass'' [50, 150] \<in> set (trace s)"
    by (simp add: line_181_def line_166_def line_167_def filter_to_band_def record_call_def
        getattr_high_gamma)
  moreover from run_script_inv [OF assms, of env]
  obtain s' where "run env script s0 = Inr s'" "script_inv s'" by blast
  ultimately show ?thesis by auto
qed

lemma defined_range_below_nyquist:
  assumes "defined_range r"
  shows "real_of_int (r ! 1) \<le> nyquist 1000"
  using assms unfolding defined_range_def Bands_iter_registry
  by (auto simp add: band_definitions_def nyquist_def)

lemma demo_trace: "trace demo_start = []"
  by (simp add: demo_start_def)

text \<open>
  Claim C10. Every frequency range the script passes to the band-pass filter has its upper
  bound at most the Nyquist frequency of the signal. Every band of the registry has
  \<open>high \<le> 500\<close>, half of the sample rate of 1000 Hz; the largest upper bound is the 150 Hz
  of \<^verbatim>\<open>high_gamma\<close>. When the script is run with any collaborators, from a state in
  which no call has been made yet, it runs to its end, and every filter call it has made
  is a band-pass at the sample rate \<^verbatim>\<open>s_rate = 1000\<close> over the range of a band of the
  registry, whose upper bound is at most the Nyquist frequency; the call over the range
  \<open>[50, 150]\<close> of \<^verbatim>\<open>high_gamma\<close> is among them.
\<close>

theorem filter_ranges_within_nyquist:
  fixes env :: "('ax, 'rng) collaborators"
  assumes "trace s0 = []"
  shows "(\<forall>(label, r) \<in> set (Bands_iter bands_registry). real_of_int (r ! 1) \<le> nyquist 1000)
     \<and> nyquist 1000 = 500
     \<and> Max ((\<lambda>(label, r). r ! 1) ` set (Bands_iter bands_registry)) = 150
     \<and> (''high_gamma'', [50, 150]) \<in> set (Bands_iter bands_registry)
     \<and> (\<exists>s. run env script s0 = Inr s \<and> s_rate s = 1000
           \<and> (\<forall>x fs p r. Filter_signal x fs p r \<in> set (trace s) \<longrightarrow>
                 fs = s_rate s \<and> p = ''bandpass'' \<and> defined_range r
                 \<and> real_of_int (r ! 1) \<le> nyquist fs)
           \<and> (\<exists>x. Filter_signal x (s_rate s) ''bandpass'' [50, 150] \<in> set (trace s)))"
proof (intro conjI)
  show "\<forall>(label, r) \<in> set (Bands_iter bands_registry). real_of_int (r ! 1) \<le> nyquist 1000"
    unfolding Bands_iter_registry by (simp add: band_definitions_def nyquist_def)
  show "Max ((\<lambda>(label, r). r ! 1) ` set (Bands_iter bands_registry)) = 150"
    unfolding Bands_iter_registry by (simp add: band_definitions_def)
  show "nyquist 1000 = 500"
    by (simp add: nyquist_def)
  show "(''high_gamma'', [50, 150]) \<in> set (Bands_iter bands_registry)"
    unfolding Bands_iter_registry by (simp add: band_definitions_def)
  from run_script_filters_high_gamma [OF assms, of env]
  obtain s where s: "run env script s0 = Inr s" "script_inv s"
      "\<exists>x. Filter_signal x 1000 ''bandpass'' [50, 150] \<in> set (trace s)"
    by blast
  from s(2) have rate: "s_rate s = 1000"
    by (simp add: script_inv_def)
  have "fs = s_rate s \<and> p = ''bandpass'' \<and> defined_range r
        \<and> real_of_int (r ! 1) \<le> nyquist fs"
    if "Filter_signal x fs p r \<in> set (trace s)" for x fs p r
  proof -
    from that s(2) have *: "fs = 1000" "p = ''bandpass''" "defined_range r"
      by (auto simp add: script_inv_def filter_calls_ok_def)
    with defined_range_below_nyquist [OF *(3)] rate show ?thesis
      by simp
  qed
  with s(1,3) rate
  show "\<exists>s. run env script s0 = Inr s \<and> s_rate s = 1000
           \<and> (\<forall>x fs p r. Filter_signal x fs p r \<in> set (trace s) \<longrightarrow>
                 fs = s_rate s \<and> p = ''bandpass'' \<and> defined_range r
                 \<and> real_of_int (r ! 1) \<le> nyquist fs)
           \<and> (\<exists>x. Filter_signal x (s_rate s) ''bandpass'' [50, 150] \<in> set (trace s))"
    by auto
qed

theorem filter_ranges_within_nyquist_witness:
  "trace demo_start = []
   \<and> (\<exists>s. run demo_collaborators script demo_start = Inr s \<and> s_rate s = 1000
         \<and> (\<exists>x. Filter_signal x (s_rate s) ''bandpass'' [50, 150] \<in> set (trace s)
                \<and> real_of_int ([50, 150] ! 1) \<le> nyquist (s_rate s)))"
proof -
  from filter_ranges_within_nyquist [OF demo_trace, of demo_collaborators]
  obtain s x where s: "run demo_collaborators script demo_start = Inr s" "s_rate s = 1000"
      "\<forall>x fs p r. Filter_signal x fs p r \<in> set (trace s) \<longrightarrow>
          fs = s_rate s \<and> p = ''bandpass'' \<and> defined_range r
          \<and> real_of_int (r ! 1) \<le> nyquist fs"
      "Filter_signal x (s_rate s) ''bandpass'' [50, 150] \<in> set (trace s)"
    by blast
  from s(3,4) have "real_of_int ([50, 150] ! 1) \<le> nyquist (s_rate s)"
    by blast
  with s(1,2,4) demo_trace show ?thesis by blast
qed

subsection \<open>The loop over the bands\<close>

lemma zip_by_index:
  assumes "length xs = n" and "length ys = n"
  shows "zip xs ys = map (\<lambda>i. (xs ! i, ys ! i)) [0..<n]"
  using assms by (intro nth_equalityI) simp_all

lemma str_list_beta: "str_list [13, 30] = ''[13, 30]''"
  by code_simp

lemma foldl_loop_body_trace:
  assumes "sig s = sg" and "s_rate s = fs" and "times_arr s = tm" and "n_seconds s = ns"
  shows "trace (foldl (loop_body env) s its) =
           trace s @ concat (map (\<lambda>it. case it of (ax, label, f_range) \<Rightarrow>
             [Filter_signal sg fs ''bandpass'' f_range,
              Plot_time_series tm (filter_signal env sg fs ''bandpass'' f_range)
                (Some (label @ '' '' @ str_list f_range)) (Some ax),
              Set_xlim ax 0 ns,
              Set_ylim ax (- 1) 1,
              Set_xlabel ax []]) its)"
  using assms
proof (induction its arbitrary: s)
  case Nil
  then show ?case by simp
next
  case (Cons it its)
  have frame: "sig (loop_body env s it) = sg" "s_rate (loop_body env s it) = fs"
      "times_arr (loop_body env s it) = tm" "n_seconds (loop_body env s it) = ns"
    using Cons.prems by (simp_all add: loop_body_frame)
  have step: "trace (loop_body env s it) = trace s @ (case it of (ax, label, f_range) \<Rightarrow>
             [Filter_signal sg fs ''bandpass'' f_range,
              Plot_time_series tm (filter_signal env sg fs ''bandpass'' f_range)
                (Some (label @ '' '' @ str_list f_range)) (Some ax),
              Set_xlim ax 0 ns,
              Set_ylim ax (- 1) 1,
              Set_xlabel ax []])"
    using Cons.prems by (simp add: loop_body_def Let_def split: prod.splits)
  show ?case
    using Cons.IH [OF frame] step by simp
qed

lemma loop_trace_by_index:
  fixes env :: "('ax, 'rng) collaborators"
  assumes "length (axes s) = Bands_len (bands s)"
  shows "\<exists>s'. lines_99_106 env s = Inr s'
     \<and> trace s' = trace s @ concat (map (\<lambda>i. case Bands_iter (bands s) ! i of (label, f_range) \<Rightarrow>
             [Filter_signal (sig s) (s_rate s) ''bandpass'' f_range,
              Plot_time_series (times_arr s)
                (filter_signal env (sig s) (s_rate s) ''bandpass'' f_range)
                (Some (label @ '' '' @ str_list f_range)) (Some (axes s ! i)),
              Set_xlim (axes s ! i) 0 (n_seconds s),
              Set_ylim (axes s ! i) (- 1) 1,
              Set_xlabel (axes s ! i) []]) [0..<Bands_len (bands s)])"
proof -
  have len_iter: "length (Bands_iter (bands s)) = Bands_len (bands s)"
    by (cases "bands s") simp
  have iterations: "loop_iterations s =
      map (\<lambda>i. (axes s ! i, Bands_iter (bands s) ! i)) [0..<Bands_len (bands s)]"
    unfolding loop_iterations_def using assms len_iter by (rule zip_by_index)
  show ?thesis
    unfolding lines_99_106_def
    by (simp add: foldl_loop_body_trace [OF refl refl refl refl] iterations comp_def
        split: prod.splits)
qed

lemma set_concat_map_member:
  assumes "x \<in> set xs"
  shows "set (f x) \<subseteq> set (concat (map f xs))"
  using assms by auto

lemma run_up_to_loop:
  fixes env :: "('ax, 'rng) collaborators"
  shows "\<exists>s. run env (take 8 script) s0 = Inr s \<and> bands s = bands_registry
           \<and> s_rate s = 1000 \<and> n_seconds s = 4
           \<and> axes s = subplots env (Bands_len bands_registry) 1"
  by (simp add: script_def line_defs split: prod.splits)

lemma run_through_loop:
  fixes env :: "('ax, 'rng) collaborators"
  assumes "run env (take 8 script) s0 = Inr s" and "lines_99_106 env s = Inr s'"
  shows "run env (take 9 script) s0 = Inr s'"
proof -
  have "take 9 (script :: ('ax, 'rng) stmt list) = take 8 script @ [lines_99_106]"
    by (simp add: script_def)
  with assms show ?thesis by (simp add: run_append)
qed

lemma demo_subplots:
  "length (subplots demo_collaborators (Bands_len bands_registry) 1) = Bands_len bands_registry"
  by (simp add: demo_collaborators_def)

lemma demo_up_to_loop:
  "\<exists>s. run demo_collaborators (take 8 script) demo_start = Inr s
       \<and> axes s = [0, 1, 2, 3, 4, 5] \<and> times_arr s = [0, 1] \<and> sig s = [21, - 1]
       \<and> s_rate s = 1000"
  by (simp add: script_def line_defs demo_collaborators_def demo_start_def Bands_len_registry
      upt_rec)

text \<open>
  Claim C5. Iterating the band registry yields the (name, range) pairs in the order of the
  configuration table: delta, theta, alpha, beta, low_gamma, high_gamma. The statement at
  position 8 of the script is the loop of lines 99-106. When \<^verbatim>\<open>plt.subplots\<close> returns
  as many axes as the \<^verbatim>\<open>len(bands)\<close> rows it is asked for, the statements before the
  loop end in a state \<open>s\<close> where there are \<^verbatim>\<open>len(bands)\<close> axes, the loop has
  \<^verbatim>\<open>len(bands)\<close> iterations, and the \<open>i\<close>-th iteration is given the \<open>i\<close>-th axis
  and the \<open>i\<close>-th band. The loop then ends in a state \<open>s'\<close> whose record of calls is
  that of \<open>s\<close> followed, for \<open>i = 0, ..., len(bands) - 1\<close> in this order, by the five calls
  of iteration \<open>i\<close>: the band-pass filter of \<^verbatim>\<open>sig\<close> over the range of band \<open>i\<close>,
  the plot of the filtered signal on axis \<open>i\<close> under the title made of the label and the
  range of band \<open>i\<close>, and the three adjustments of axis \<open>i\<close>. So for every \<open>i\<close> the
  filter call of band \<open>i\<close> and the plot of band \<open>i\<close> on axis \<open>i\<close> are among the calls
  made.
\<close>

theorem iteration_order_and_axis_pairing:
  fixes env :: "('ax, 'rng) collaborators"
  assumes "length (subplots env (Bands_len bands_registry) 1) = Bands_len bands_registry"
  shows "Bands_iter bands_registry =
           [(''delta'', [2, 4]), (''theta'', [4, 8]), (''alpha'', [8, 13]),
            (''beta'', [13, 30]), (''low_gamma'', [30, 50]), (''high_gamma'', [50, 150])]
     \<and> (script :: ('ax, 'rng) stmt list) ! 8 = lines_99_106
     \<and> (\<exists>s s'. run env (take 8 script) s0 = Inr s
           \<and> bands s = bands_registry
           \<and> length (axes s) = Bands_len (bands s)
           \<and> length (loop_iterations s) = Bands_len (bands s)
           \<and> (\<forall>i < Bands_len (bands s).
                 loop_iterations s ! i = (axes s ! i, Bands_iter (bands s) ! i))
           \<and> lines_99_106 env s =
               Inr (foldl (loop_body env) s
                     (map (\<lambda>i. (axes s ! i, Bands_iter (bands s) ! i))
                        [0..<Bands_len (bands s)]))
           \<and> lines_99_106 env s = Inr s'
           \<and> run env (take 9 script) s0 = Inr s'
           \<and> trace s' = trace s @ concat (map (\<lambda>i.
                 case Bands_iter (bands s) ! i of (label, f_range) \<Rightarrow>
                   [Filter_signal (sig s) (s_rate s) ''bandpass'' f_range,
                    Plot_time_series (times_arr s)
                      (filter_signal env (sig s) (s_rate s) ''bandpass'' f_range)
                      (Some (label @ '' '' @ str_list f_range)) (Some (axes s ! i)),
                    Set_xlim (axes s ! i) 0 (n_seconds s),
                    Set_ylim (axes s ! i) (- 1) 1,
                    Set_xlabel (axes s ! i) []]) [0..<Bands_len (bands s)])
           \<and> (\<forall>i < Bands_len (bands s). \<forall>label f_range.
                 Bands_iter (bands s) ! i = (label, f_range) \<longrightarrow>
                   Filter_signal (sig s) (s_rate s) ''bandpass'' f_range \<in> set (trace s')
                   \<and> Plot_time_series (times_arr s)
                        (filter_signal env (sig s) (s_rate s) ''bandpass'' f_range)
                        (Some (label @ '' '' @ str_list f_range)) (Some (axes s ! i))
                      \<in> set (trace s')))"
proof (intro conjI)
  show "Bands_iter bands_registry =
           [(''delta'', [2, 4]), (''theta'', [4, 8]), (''alpha'', [8, 13]),
            (''beta'', [13, 30]), (''low_gamma'', [30, 50]), (''high_gamma'', [50, 150])]"
    unfolding Bands_iter_registry by (simp add: band_definitions_def)
  show "(script :: ('ax, 'rng) stmt list) ! 8 = lines_99_106"
    by (simp add: script_def)
  from run_up_to_loop [of env s0]
  obtain s where s: "run env (take 8 script) s0 = Inr s" "bands s = bands_registry"
    "axes s = subplots env (Bands_len bands_registry) 1" by blast
  from s(2,3) assms have len_axes: "length (axes s) = Bands_len (bands s)" by simp
  have len_iter: "length (Bands_iter (bands s)) = Bands_len (bands s)"
    by (cases "bands s") simp
  have iterations: "loop_iterations s =
      map (\<lambda>i. (axes s ! i, Bands_iter (bands s) ! i)) [0..<Bands_len (bands s)]"
    unfolding loop_iterations_def using len_axes len_iter by (rule zip_by_index)
  have len: "length (loop_iterations s) = Bands_len (bands s)"
    by (simp add: iterations)
  have nth: "\<forall>i < Bands_len (bands s).
      loop_iterations s ! i = (axes s ! i, Bands_iter (bands s) ! i)"
    by (simp add: iterations)
  have loop: "lines_99_106 env s =
      Inr (foldl (loop_body env) s
            (map (\<lambda>i. (axes s ! i, Bands_iter (bands s) ! i)) [0..<Bands_len (bands s)]))"
    by (simp add: lines_99_106_def iterations [symmetric])
  define calls where "calls = (\<lambda>i. case Bands_iter (bands s) ! i of (label, f_range) \<Rightarrow>
                   [Filter_signal (sig s) (s_rate s) ''bandpass'' f_range,
                    Plot_time_series (times_arr s)
                      (filter_signal env (sig s) (s_rate s) ''bandpass'' f_range)
                      (Some (label @ '' '' @ str_list f_range)) (Some (axes s ! i)),
                    Set_xlim (axes s ! i) 0 (n_seconds s),
                    Set_ylim (axes s ! i) (- 1) 1,
                    Set_xlabel (axes s ! i) []])"
  from loop_trace_by_index [OF len_axes, of env]
  obtain s' where s': "lines_99_106 env s = Inr s'"
      "trace s' = trace s @ concat (map calls [0..<Bands_len (bands s)])"
    unfolding calls_def by blast
  from s(1) s'(1) have run9: "run env (take 9 script) s0 = Inr s'"
    by (rule run_through_loop)
  have calls: "Filter_signal (sig s) (s_rate s) ''bandpass'' f_range \<in> set (trace s')
        \<and> Plot_time_series (times_arr s)
             (filter_signal env (sig s) (s_rate s) ''bandpass'' f_range)
             (Some (label @ '' '' @ str_list f_range)) (Some (axes s ! i))
           \<in> set (trace s')"
    if "i < Bands_len (bands s)" and "Bands_iter (bands s) ! i = (label, f_range)"
    for i label f_range
  proof -
    from that(1) have "i \<in> set [0..<Bands_len (bands s)]" by simp
    then have "set (calls i) \<subseteq> set (concat (map calls [0..<Bands_len (bands s)]))"
      by (rule set_concat_map_member)
    moreover have "set (trace s') =
        set (trace s) \<union> set (concat (map calls [0..<Bands_len (bands s)]))"
      unfolding s'(2) by (rule set_append)
    ultimately have sub: "set (calls i) \<subseteq> set (trace s')" by blast
    have "Filter_signal (sig s) (s_rate s) ''bandpass'' f_range \<in> set (calls i)"
      and "Plot_time_series (times_arr s)
             (filter_signal env (sig s) (s_rate s) ''bandpass'' f_range)
             (Some (label @ '' '' @ str_list f_range)) (Some (axes s ! i)) \<in> set (calls i)"
      by (simp_all add: calls_def that(2))
    with sub show ?thesis by blast
  qed
  show "\<exists>s s'. run env (take 8 script) s0 = Inr s
           \<and> bands s = bands_registry
           \<and> length (axes s) = Bands_len (bands s)
           \<and> length (loop_iterations s) = Bands_len (bands s)
           \<and> (\<forall>i < Bands_len (bands s).
                 loop_iterations s ! i = (axes s ! i, Bands_iter (bands s) ! i))
           \<and> lines_99_106 env s =
               Inr (foldl (loop_body env) s
                     (map (\<lambda>i. (axes s ! i, Bands_iter (bands s) ! i))
                        [0..<Bands_len (bands s)]))
           \<and> lines_99_106 env s = Inr s'
           \<and> run env (take 9 script) s0 = Inr s'
           \<and> trace s' = trace s @ concat (map (\<lambda>i.
                 case Bands_iter (bands s) ! i of (label, f_range) \<Rightarrow>
                   [Filter_signal (sig s) (s_rate s) ''bandpass'' f_range,
                    Plot_time_series (times_arr s)
                      (filter_signal env (sig s) (s_rate s) ''bandpass'' f_range)
                      (Some (label @ '' '' @ str_list f_range)) (Some (axes s ! i)),
                    Set_xlim (axes s ! i) 0 (n_seconds s),
                    Set_ylim (axes s ! i) (- 1) 1,
                    Set_xlabel (axes s ! i) []]) [0..<Bands_len (bands s)])
           \<and> (\<forall>i < Bands_len (bands s). \<forall>label f_range.
                 Bands_iter (bands s) ! i = (label, f_range) \<longrightarrow>
                   Filter_signal (sig s) (s_rate s) ''bandpass'' f_range \<in> set (trace s')
                   \<and> Plot_time_series (times_arr s)
                        (filter_signal env (sig s) (s_rate s) ''bandpass'' f_range)
                        (Some (label @ '' '' @ str_list f_range)) (Some (axes s ! i))
                      \<in> set (trace s'))"
    apply (rule exI [of _ s])
    apply (rule exI [of _ s'])
    using s(1,2) len_axes len nth loop s' run9 calls
    unfolding calls_def
    apply (intro conjI)
    apply (assumption | blast)+
    done
qed

theorem iteration_order_and_axis_pairing_witness:
  "length (subplots demo_collaborators (Bands_len bands_registry) 1) = Bands_len bands_registry
   \<and> (\<exists>s s'. run demo_collaborators (take 8 script) demo_start = Inr s
         \<and> run demo_collaborators (take 9 script) demo_start = Inr s'
         \<and> axes s = [0, 1, 2, 3, 4, 5]
         \<and> length (loop_iterations s) = 6
         \<and> loop_iterations s ! 3 = (3, ''beta'', [13, 30])
         \<and> Filter_signal [21, - 1] 1000 ''bandpass'' [13, 30] \<in> set (trace s')
         \<and> Plot_time_series [0, 1] [21 / 2, - 1 / 2] (Some ''beta [13, 30]'') (Some 3)
             \<in> set (trace s'))"
proof -
  from iteration_order_and_axis_pairing [OF demo_subplots, of demo_start]
  obtain s s' where s: "run demo_collaborators (take 8 script) demo_start = Inr s"
      "bands s = bands_registry"
      "length (loop_iterations s) = Bands_len (bands s)"
      "\<forall>i < Bands_len (bands s). loop_iterations s ! i = (axes s ! i, Bands_iter (bands s) ! i)"
      "run demo_collaborators (take 9 script) demo_start = Inr s'"
      "\<forall>i < Bands_len (bands s). \<forall>label f_range.
          Bands_iter (bands s) ! i = (label, f_range) \<longrightarrow>
            Filter_signal (sig s) (s_rate s) ''bandpass'' f_range \<in> set (trace s')
            \<and> Plot_time_series (times_arr s)
                 (filter_signal demo_collaborators (sig s) (s_rate s) ''bandpass'' f_range)
                 (Some (label @ '' '' @ str_list f_range)) (Some (axes s ! i))
               \<in> set (trace s')"
    by blast
  from demo_up_to_loop s(1)
  have st: "axes s = [0, 1, 2, 3, 4, 5]" "times_arr s = [0, 1]" "sig s = [21, - 1]"
      "s_rate s = 1000"
    by auto
  from s(2,3) have len: "length (loop_iterations s) = 6"
    by (simp add: Bands_len_registry)
  have beta: "Bands_iter (bands s) ! 3 = (''beta'', [13, 30])" and three: "3 < Bands_len (bands s)"
    using s(2) by (simp_all add: Bands_iter_registry Bands_len_registry band_definitions_def)
  from s(4) three beta st(1) have it: "loop_iterations s ! 3 = (3, ''beta'', [13, 30])"
    by simp
  from s(6) three beta
  have "Filter_signal (sig s) (s_rate s) ''bandpass'' [13, 30] \<in> set (trace s')
      \<and> Plot_time_series (times_arr s)
           (filter_signal demo_collaborators (sig s) (s_rate s) ''bandpass'' [13, 30])
           (Some (''beta'' @ '' '' @ str_list [13, 30])) (Some (axes s ! 3))
         \<in> set (trace s')"
    by blast
  then have "Filter_signal [21, - 1] 1000 ''bandpass'' [13, 30] \<in> set (trace s')
      \<and> Plot_time_series [0, 1] [21 / 2, - 1 / 2] (Some ''beta [13, 30]'') (Some 3)
         \<in> set (trace s')"
    by (simp add: st str_list_beta demo_collaborators_def)
  with s(1,5) st(1) len it demo_subplots show ?thesis by blast
qed

end
